theory Spec2Isabelle
  imports Main
begin

section \<open>Errors\<close>

text \<open>
  A Go \<open>error\<close> of the two source files is built in one of three ways: by
  \<open>errors.New\<close>/\<open>errors.Errorf\<close> with a message, by \<open>errors.Wrap\<close>/\<open>errors.Wrapf\<close>
  around an earlier error, or it is handed back by a collaborator outside the two
  files (the operating system, the S3 client, the CNI library).
\<close>

datatype error =
    Errorf string
  | Wrap error string
  | External string

text \<open>\<open>err.Error()\<close>: a wrapped error prints its message, a colon, and the cause.\<close>

fun error_string :: "error \<Rightarrow> string" where
  "error_string (Errorf m) = m"
| "error_string (Wrap e m) = m @ '': '' @ error_string e"
| "error_string (External m) = m"

text \<open>\<open>errors.Cause\<close>: the innermost error of a chain of wraps.\<close>

fun Cause :: "error \<Rightarrow> error" where
  "Cause (Wrap e m) = Cause e"
| "Cause e = e"

section \<open>Resource status\<close>

text \<open>
  Modelled from the spec: the declarations of \<open>resourcestatus.ResourceStatus\<close> and of the
  constants \<open>FirelensStatusNone\<close>, \<open>FirelensCreated\<close>, \<open>FirelensRemoved\<close> are not among
  the source files. The source compares statuses with \<open>\<le>\<close> and adds 1 to them, so the
  type is an integer; the spec orders them None, Created, Removed.
\<close>

type_synonym ResourceStatus = int

definition FirelensStatusNone :: ResourceStatus where
  "FirelensStatusNone = 0"

definition FirelensCreated :: ResourceStatus where
  "FirelensCreated = 1"

definition FirelensRemoved :: ResourceStatus where
  "FirelensRemoved = 2"

section \<open>The firelens resource\<close>

subsection \<open>Constants of firelens_unix.go\<close>

definition ResourceName :: string where
  "ResourceName = ''firelens''"

definition tempFile :: string where
  "tempFile = ''temp_config_file''"

text \<open>\<open>configFilePerm = 0644\<close> (octal).\<close>

definition configFilePerm :: nat where
  "configFilePerm = 6 * 64 + 4 * 8 + 4"

definition ecsLogMetadataEnableOption :: string where
  "ecsLogMetadataEnableOption = ''enable-ecs-log-metadata''"

definition ExternalConfigTypeOption :: string where
  "ExternalConfigTypeOption = ''config-file-type''"

definition ExternalConfigTypeS3 :: string where
  "ExternalConfigTypeS3 = ''s3''"

definition ExternalConfigTypeFile :: string where
  "ExternalConfigTypeFile = ''file''"

definition externalConfigValueOption :: string where
  "externalConfigValueOption = ''config-file-value''"

text \<open>
  Modelled from the spec: \<open>FirelensConfigTypeFluentd\<close> and \<open>FirelensConfigTypeFluentbit\<close>
  are declared outside the source files; the spec names the two renderer variants.
\<close>

definition FirelensConfigTypeFluentd :: string where
  "FirelensConfigTypeFluentd = ''fluentd''"

definition FirelensConfigTypeFluentbit :: string where
  "FirelensConfigTypeFluentbit = ''fluentbit''"

subsection \<open>The struct\<close>

text \<open>
  The transition table maps a status to a bound method. The only method ever stored is
  \<open>firelens.Create\<close>, so the table's values are tags and the dispatcher runs the function
  a tag stands for.
\<close>

datatype transition = CreateFn

text \<open>
  \<open>FirelensResource\<close>, field by field. The lock is left out (every operation below is one
  critical section); \<open>terminalReasonOnce\<close> is the \<open>sync.Once\<close>: true once its \<open>Do\<close> has
  run. The collaborators \<open>credentialsManager\<close>, \<open>ioutil\<close> and \<open>s3ClientCreator\<close> are
  held by the environment record further down.
\<close>

record FirelensResource =
  cluster :: string
  taskARN :: string
  taskDefinition :: string
  ec2InstanceID :: string
  resourceDir :: string
  firelensConfigType :: string
  region :: string
  ecsMetadataEnabled :: bool
  containerToLogOptions :: "string \<rightharpoonup> (string \<rightharpoonup> string)"
  executionCredentialsID :: string
  externalConfigType :: string
  externalConfigValue :: string
  networkMode :: string
  createdAtUnsafe :: nat
  desiredStatusUnsafe :: ResourceStatus
  knownStatusUnsafe :: ResourceStatus
  appliedStatusUnsafe :: ResourceStatus
  statusToTransitions :: "ResourceStatus \<rightharpoonup> transition"
  terminalReason :: string
  terminalReasonOnce :: bool

subsection \<open>parseOptions\<close>

text \<open>\<open>strconv.ParseBool\<close> of the Go standard library.\<close>

definition ParseBool :: "string \<Rightarrow> bool option" where
  "ParseBool str =
     (if str \<in> {''1'', ''t'', ''T'', ''true'', ''TRUE'', ''True''} then Some True
      else if str \<in> {''0'', ''f'', ''F'', ''false'', ''FALSE'', ''False''} then Some False
      else None)"

text \<open>
  \<open>parseOptions\<close> mutates the receiver and returns an error or nil: the model returns the
  error (or \<open>None\<close>) and the resource as the call leaves it. It takes the options and the
  resource and nothing else; no file system is among its arguments or results.
\<close>

definition parseOptions ::
  "(string \<rightharpoonup> string) \<Rightarrow> FirelensResource \<Rightarrow> error option \<times> FirelensResource" where
  "parseOptions options firelens =
     (let firelens1 =
            (case options ecsLogMetadataEnableOption of
               Some val \<Rightarrow>
                 (case ParseBool val of
                    None \<Rightarrow> firelens
                  | Some b \<Rightarrow> firelens\<lparr>ecsMetadataEnabled := b\<rparr>)
             | None \<Rightarrow> firelens\<lparr>ecsMetadataEnabled := True\<rparr>)
      in case options ExternalConfigTypeOption of
           Some externalConfigType' \<Rightarrow>
             if externalConfigType' \<noteq> ExternalConfigTypeS3
                \<and> externalConfigType' \<noteq> ExternalConfigTypeFile
             then (Some (Errorf (''invalid value '' @ externalConfigType'
                      @ '' is specified for option '' @ ExternalConfigTypeOption)), firelens1)
             else
               (let firelens2 = firelens1\<lparr>externalConfigType := externalConfigType'\<rparr>
                in case options externalConfigValueOption of
                     None \<Rightarrow>
                       (Some (Errorf (''option '' @ ExternalConfigTypeOption
                          @ '' is specified but '' @ externalConfigValueOption
                          @ '' is not specified'')), firelens2)
                   | Some externalConfigValue' \<Rightarrow>
                       (None, firelens2\<lparr>externalConfigValue := externalConfigValue'\<rparr>))
         | None \<Rightarrow> (None, firelens1))"

subsection \<open>NewFirelensResource\<close>

text \<open>\<open>strings.Split s sep\<close> for a separator of one character.\<close>

fun strings_Split :: "string \<Rightarrow> char \<Rightarrow> string list" where
  "strings_Split [] sep = [[]]"
| "strings_Split (c # cs) sep =
     (if c = sep then [] # strings_Split cs sep
      else (case strings_Split cs sep of
              [] \<Rightarrow> [[c]]
            | x # xs \<Rightarrow> (c # x) # xs))"

text \<open>
  \<open>filepath.Join\<close> of two elements: empty elements are dropped and the rest are joined
  with one separator. The standard library also cleans the result (doubled separators,
  dot elements); that step is the identity on the clean paths used here and is left out.
\<close>

definition filepath_Join :: "string \<Rightarrow> string \<Rightarrow> string" where
  "filepath_Join a b = (if a = [] then b else if b = [] then a else a @ ''/'' @ b)"

definition initStatusToTransition :: "FirelensResource \<Rightarrow> FirelensResource" where
  "initStatusToTransition firelens =
     firelens\<lparr>statusToTransitions := [FirelensCreated \<mapsto> CreateFn]\<rparr>"

text \<open>
  The struct literal of \<open>NewFirelensResource\<close> names some fields; every other field has
  Go's zero value (empty string, false, 0, nil map, a fresh \<open>sync.Once\<close>).
\<close>

definition NewFirelensResource ::
  "string \<Rightarrow> string \<Rightarrow> string \<Rightarrow> string \<Rightarrow> string \<Rightarrow> string \<Rightarrow> string \<Rightarrow> string
   \<Rightarrow> (string \<rightharpoonup> string) \<Rightarrow> (string \<rightharpoonup> (string \<rightharpoonup> string)) \<Rightarrow> string
   \<Rightarrow> error + FirelensResource" where
  "NewFirelensResource cluster' taskARN' taskDefinition' ec2InstanceID' dataDir
       firelensConfigType' region' networkMode' firelensOptions containerToLogOptions'
       executionCredentialsID' =
     (let firelensResource =
            \<lparr> cluster = cluster', taskARN = taskARN', taskDefinition = taskDefinition',
              ec2InstanceID = ec2InstanceID', resourceDir = [],
              firelensConfigType = firelensConfigType', region = region',
              ecsMetadataEnabled = False, containerToLogOptions = containerToLogOptions',
              executionCredentialsID = executionCredentialsID',
              externalConfigType = [], externalConfigValue = [],
              networkMode = networkMode', createdAtUnsafe = 0,
              desiredStatusUnsafe = 0, knownStatusUnsafe = 0, appliedStatusUnsafe = 0,
              statusToTransitions = Map.empty, terminalReason = [],
              terminalReasonOnce = False \<rparr>;
          fields = strings_Split taskARN' (CHR ''/'');
          taskID = last fields;
          firelensResource1 = firelensResource
            \<lparr>resourceDir := filepath_Join (filepath_Join dataDir ''firelens'') taskID\<rparr>
      in case parseOptions firelensOptions firelensResource1 of
           (Some err, _) \<Rightarrow> Inl (Wrap err ''error parsing firelens options'')
         | (None, firelensResource2) \<Rightarrow> Inr (initStatusToTransition firelensResource2))"

subsection \<open>Status tracker\<close>

text \<open>\<open>sync.Once.Do\<close>: the body runs on the first call only.\<close>

definition setTerminalReason :: "string \<Rightarrow> FirelensResource \<Rightarrow> FirelensResource" where
  "setTerminalReason reason firelens =
     (if terminalReasonOnce firelens then firelens
      else firelens\<lparr>terminalReason := reason, terminalReasonOnce := True\<rparr>)"

definition GetTerminalReason :: "FirelensResource \<Rightarrow> string" where
  "GetTerminalReason firelens = terminalReason firelens"

definition SetDesiredStatus :: "ResourceStatus \<Rightarrow> FirelensResource \<Rightarrow> FirelensResource" where
  "SetDesiredStatus status firelens = firelens\<lparr>desiredStatusUnsafe := status\<rparr>"

definition GetDesiredStatus :: "FirelensResource \<Rightarrow> ResourceStatus" where
  "GetDesiredStatus firelens = desiredStatusUnsafe firelens"

definition updateAppliedStatusUnsafe ::
  "ResourceStatus \<Rightarrow> FirelensResource \<Rightarrow> FirelensResource" where
  "updateAppliedStatusUnsafe knownStatus firelens =
     (if appliedStatusUnsafe firelens = FirelensStatusNone then firelens
      else if appliedStatusUnsafe firelens \<le> knownStatus
           then firelens\<lparr>appliedStatusUnsafe := FirelensStatusNone\<rparr>
           else firelens)"

definition SetKnownStatus :: "ResourceStatus \<Rightarrow> FirelensResource \<Rightarrow> FirelensResource" where
  "SetKnownStatus status firelens =
     updateAppliedStatusUnsafe status (firelens\<lparr>knownStatusUnsafe := status\<rparr>)"

definition GetKnownStatus :: "FirelensResource \<Rightarrow> ResourceStatus" where
  "GetKnownStatus firelens = knownStatusUnsafe firelens"

definition GetAppliedStatus :: "FirelensResource \<Rightarrow> ResourceStatus" where
  "GetAppliedStatus firelens = appliedStatusUnsafe firelens"

definition NextKnownState :: "FirelensResource \<Rightarrow> ResourceStatus" where
  "NextKnownState firelens = GetKnownStatus firelens + 1"

definition DesiredTerminal :: "FirelensResource \<Rightarrow> bool" where
  "DesiredTerminal firelens \<longleftrightarrow> desiredStatusUnsafe firelens = FirelensRemoved"

text \<open>\<open>SetAppliedStatus\<close> returns its boolean and the resource as the call leaves it.\<close>

definition SetAppliedStatus ::
  "ResourceStatus \<Rightarrow> FirelensResource \<Rightarrow> bool \<times> FirelensResource" where
  "SetAppliedStatus status firelens =
     (if appliedStatusUnsafe firelens \<noteq> FirelensStatusNone then (False, firelens)
      else (True, firelens\<lparr>appliedStatusUnsafe := status\<rparr>))"

section \<open>The file system and the other collaborators\<close>

text \<open>
  What the resource does to the host is modelled on an explicit file system: the regular
  files by path (content, permission bits, whether the content has been flushed), the
  directories that \<open>mkdirAll\<close> has created (the requested ones and their ancestors), and
  the temporary names whose handle is still open.
\<close>

record regular_file =
  f_content :: string
  f_mode :: nat
  f_synced :: bool

record filesystem =
  files :: "string \<rightharpoonup> regular_file"
  dirs :: "string set"
  open_handles :: "string set"

text \<open>The system calls that may fail, with their arguments.\<close>

datatype os_op =
    MkdirAllOp string
  | TempFileOp string string
  | ChmodOp string nat
  | SyncOp string
  | RenameOp string string

text \<open>
  Everything outside the two source files is a parameter. \<open>os_fail\<close> says whether a
  system call fails in a given state of the file system, and with which error;
  \<open>mkdir_progress\<close> is the number of ancestors a failing \<open>os.MkdirAll\<close> had created, top
  down, before it failed;
  \<open>temp_suffix\<close> is the random suffix \<open>ioutil.TempFile\<close> appends to its pattern. The
  credentials manager, the S3 package, the config generator of the firelens package and
  \<open>FirelensStatus.String\<close> are functions of this record. A function that writes to a file
  (\<open>DownloadFile\<close>, \<open>WriteFluentdConfig\<close>, \<open>WriteFluentBitConfig\<close>) is given by the bytes
  it writes and the error it returns: with an error the bytes are whatever reached the
  file before the failure.
\<close>

record env =
  os_fail :: "filesystem \<Rightarrow> os_op \<Rightarrow> error option"
  mkdir_progress :: "filesystem \<Rightarrow> string \<Rightarrow> nat"
  temp_suffix :: "filesystem \<Rightarrow> string"
  GetTaskCredentials :: "string \<rightharpoonup> string"
  ParseS3ARN :: "string \<Rightarrow> error + (string \<times> string)"
  NewS3ClientForBucket :: "string \<Rightarrow> string \<Rightarrow> string \<Rightarrow> error + string"
  DownloadFile :: "string \<Rightarrow> string \<Rightarrow> string \<Rightarrow> string \<times> error option"
  generateConfig :: "FirelensResource \<Rightarrow> error + string"
  WriteFluentdConfig :: "string \<Rightarrow> string \<times> error option"
  WriteFluentBitConfig :: "string \<Rightarrow> string \<times> error option"
  StatusString :: "ResourceStatus \<Rightarrow> string"

text \<open>
  The ancestors of a path, shortest first: every non-empty prefix that ends just before
  a separator (the root itself always exists and is not listed).
\<close>

fun ancestors_from :: "string \<Rightarrow> string \<Rightarrow> string list" where
  "ancestors_from pre [] = []"
| "ancestors_from pre (c # cs) =
     (if c = CHR ''/'' \<and> pre \<noteq> [] then [pre] else []) @ ancestors_from (pre @ [c]) cs"

definition ancestors :: "string \<Rightarrow> string list" where
  "ancestors path = ancestors_from [] path"

text \<open>
  \<open>os.MkdirAll\<close> creates the missing ancestors top down and then the directory itself.
  On success the directory and all its ancestors exist. A failed call has created the
  ancestors it got to before the failure, and not the directory itself.
\<close>

definition mkdirAll :: "env \<Rightarrow> string \<Rightarrow> filesystem \<Rightarrow> error option \<times> filesystem" where
  "mkdirAll env path fs =
     (case os_fail env fs (MkdirAllOp path) of
        Some err \<Rightarrow>
          (Some err,
           fs\<lparr>dirs := set (take (mkdir_progress env fs path) (ancestors path)) \<union> dirs fs\<rparr>)
      | None \<Rightarrow> (None, fs\<lparr>dirs := insert path (set (ancestors path) \<union> dirs fs)\<rparr>))"

text \<open>
  \<open>ioutil.TempFile dir pattern\<close>: a new empty file with mode 0600 named by the pattern and
  a random suffix, opened for writing. The library draws new suffixes while the name is
  taken and gives up with an error; the model takes one draw and fails on a taken name.
\<close>

definition TempFile ::
  "env \<Rightarrow> string \<Rightarrow> string \<Rightarrow> filesystem \<Rightarrow> error + (string \<times> filesystem)" where
  "TempFile env dir pattern fs =
     (case os_fail env fs (TempFileOp dir pattern) of
        Some err \<Rightarrow> Inl err
      | None \<Rightarrow>
          (let name = filepath_Join dir (pattern @ temp_suffix env fs)
           in if files fs name \<noteq> None then Inl (External ''file exists'')
              else Inr (name,
                     fs\<lparr>files := (files fs)(name \<mapsto>
                            \<lparr>f_content = [], f_mode = 6 * 64, f_synced = False\<rparr>),
                        open_handles := insert name (open_handles fs)\<rparr>)))"

text \<open>Writing through the handle appends to the file the handle was opened on.\<close>

definition file_Write :: "string \<Rightarrow> string \<Rightarrow> filesystem \<Rightarrow> filesystem" where
  "file_Write name data fs =
     fs\<lparr>files := (files fs)(name :=
           map_option (\<lambda>f. f\<lparr>f_content := f_content f @ data, f_synced := False\<rparr>)
             (files fs name))\<rparr>"

definition file_Chmod ::
  "env \<Rightarrow> string \<Rightarrow> nat \<Rightarrow> filesystem \<Rightarrow> error option \<times> filesystem" where
  "file_Chmod env name mode fs =
     (case os_fail env fs (ChmodOp name mode) of
        Some err \<Rightarrow> (Some err, fs)
      | None \<Rightarrow>
          (None, fs\<lparr>files := (files fs)(name :=
                   map_option (\<lambda>f. f\<lparr>f_mode := mode\<rparr>) (files fs name))\<rparr>))"

definition file_Sync :: "env \<Rightarrow> string \<Rightarrow> filesystem \<Rightarrow> error option \<times> filesystem" where
  "file_Sync env name fs =
     (case os_fail env fs (SyncOp name) of
        Some err \<Rightarrow> (Some err, fs)
      | None \<Rightarrow>
          (None, fs\<lparr>files := (files fs)(name :=
                   map_option (\<lambda>f. f\<lparr>f_synced := True\<rparr>) (files fs name))\<rparr>))"

definition file_Close :: "string \<Rightarrow> filesystem \<Rightarrow> filesystem" where
  "file_Close name fs = fs\<lparr>open_handles := open_handles fs - {name}\<rparr>"

text \<open>
  \<open>os.Rename\<close>: atomic. On success the new path holds the old path's file and the old
  path is gone; a failed call changes nothing.
\<close>

definition rename ::
  "env \<Rightarrow> string \<Rightarrow> string \<Rightarrow> filesystem \<Rightarrow> error option \<times> filesystem" where
  "rename env oldpath newpath fs =
     (case os_fail env fs (RenameOp oldpath newpath) of
        Some err \<Rightarrow> (Some err, fs)
      | None \<Rightarrow>
          (if oldpath = newpath then (None, fs)
           else (None, fs\<lparr>files := (files fs)(newpath := files fs oldpath, oldpath := None)\<rparr>)))"

subsection \<open>writeConfigFile\<close>

text \<open>
  The function returns its error and, for the claims about what a reader of the
  destination can observe, every state the file system goes through during the call, in
  order: the state at entry, the state after each step, and last the state the deferred
  \<open>temp.Close()\<close> leaves. \<open>defer temp.Close()\<close> is registered once \<open>TempFile\<close> has
  succeeded, so it runs on each exit path after that.
\<close>

definition writeConfigFile_trace ::
  "env \<Rightarrow> FirelensResource \<Rightarrow> string \<times> error option \<Rightarrow> string \<Rightarrow> filesystem
   \<Rightarrow> error option \<times> filesystem list" where
  "writeConfigFile_trace env firelens writeFunc filePath fs =
     (case TempFile env (resourceDir firelens) tempFile fs of
        Inl err \<Rightarrow> (Some err, [fs])
      | Inr (temp, fs1) \<Rightarrow>
          (let fs2 = file_Write temp (fst writeFunc) fs1
           in case snd writeFunc of
                Some err \<Rightarrow> (Some err, [fs, fs1, fs2, file_Close temp fs2])
              | None \<Rightarrow>
                  (case file_Chmod env temp configFilePerm fs2 of
                     (Some err, fs3) \<Rightarrow> (Some err, [fs, fs1, fs2, fs3, file_Close temp fs3])
                   | (None, fs3) \<Rightarrow>
                       (case file_Sync env temp fs3 of
                          (Some err, fs4) \<Rightarrow>
                            (Some err, [fs, fs1, fs2, fs3, fs4, file_Close temp fs4])
                        | (None, fs4) \<Rightarrow>
                            (case rename env temp filePath fs4 of
                               (Some err, fs5) \<Rightarrow>
                                 (Some err, [fs, fs1, fs2, fs3, fs4, fs5, file_Close temp fs5])
                             | (None, fs5) \<Rightarrow>
                                 (None, [fs, fs1, fs2, fs3, fs4, fs5, file_Close temp fs5]))))))"

definition writeConfigFile ::
  "env \<Rightarrow> FirelensResource \<Rightarrow> string \<times> error option \<Rightarrow> string \<Rightarrow> filesystem
   \<Rightarrow> error option \<times> filesystem" where
  "writeConfigFile env firelens writeFunc filePath fs =
     (case writeConfigFile_trace env firelens writeFunc filePath fs of
        (err, states) \<Rightarrow> (err, last states))"

text \<open>The name \<open>TempFile\<close> picks for a call of \<open>writeConfigFile\<close> in state \<open>fs\<close>.\<close>

definition temp_path :: "env \<Rightarrow> FirelensResource \<Rightarrow> filesystem \<Rightarrow> string" where
  "temp_path env firelens fs =
     filepath_Join (resourceDir firelens) (tempFile @ temp_suffix env fs)"

subsection \<open>Create\<close>

definition createDirectories ::
  "env \<Rightarrow> FirelensResource \<Rightarrow> filesystem \<Rightarrow> error option \<times> filesystem" where
  "createDirectories env firelens fs =
     (let configDir = filepath_Join (resourceDir firelens) ''config''
      in case mkdirAll env configDir fs of
           (Some err, fs1) \<Rightarrow> (Some (Wrap err ''unable to create config directory''), fs1)
         | (None, fs1) \<Rightarrow>
             (let socketDir = filepath_Join (resourceDir firelens) ''socket''
              in case mkdirAll env socketDir fs1 of
                   (Some err, fs2) \<Rightarrow>
                     (Some (Wrap err ''unable to create socket directory''), fs2)
                 | (None, fs2) \<Rightarrow> (None, fs2)))"

definition generateConfigFile ::
  "env \<Rightarrow> FirelensResource \<Rightarrow> filesystem \<Rightarrow> error option \<times> filesystem" where
  "generateConfigFile env firelens fs =
     (case generateConfig env firelens of
        Inl err \<Rightarrow> (Some (Wrap err ''unable to generate firelens config''), fs)
      | Inr config \<Rightarrow>
          (let confFilePath =
                 filepath_Join (filepath_Join (resourceDir firelens) ''config'') ''fluent.conf'';
               writeFunc =
                 (if firelensConfigType firelens = FirelensConfigTypeFluentd
                  then WriteFluentdConfig env config
                  else WriteFluentBitConfig env config)
           in case writeConfigFile env firelens writeFunc confFilePath fs of
                (Some err, fs1) \<Rightarrow>
                  (Some (Wrap err ''unable to generate firelens config file''), fs1)
              | (None, fs1) \<Rightarrow> (None, fs1)))"

definition downloadConfigFromS3 ::
  "env \<Rightarrow> FirelensResource \<Rightarrow> filesystem \<Rightarrow> error option \<times> filesystem" where
  "downloadConfigFromS3 env firelens fs =
     (case GetTaskCredentials env (executionCredentialsID firelens) of
        None \<Rightarrow> (Some (Errorf ''unable to get execution role credentials''), fs)
      | Some creds \<Rightarrow>
          (case ParseS3ARN env (externalConfigValue firelens) of
             Inl err \<Rightarrow> (Some (Wrap err ''unable to parse bucket and key from s3 arn''), fs)
           | Inr (bucket, key) \<Rightarrow>
               (case NewS3ClientForBucket env bucket (region firelens) creds of
                  Inl err \<Rightarrow>
                    (Some (Wrap err (''unable to initialize s3 client for bucket '' @ bucket)),
                     fs)
                | Inr s3Client \<Rightarrow>
                    (let confFilePath =
                           filepath_Join (filepath_Join (resourceDir firelens) ''config'')
                             ''external.conf''
                     in case writeConfigFile env firelens
                               (DownloadFile env bucket key s3Client) confFilePath fs of
                          (Some err, fs1) \<Rightarrow>
                            (Some (Wrap err (''unable to download s3 config '' @ key
                               @ '' from bucket '' @ bucket)), fs1)
                        | (None, fs1) \<Rightarrow> (None, fs1)))))"

text \<open>
  The spec's \<open>CredentialError\<close> is the error \<open>downloadConfigFromS3\<close> builds with
  \<open>errors.New\<close> when the credentials manager has no credentials for the
  execution-credentials id.
\<close>

definition CredentialError :: error where
  "CredentialError = Errorf ''unable to get execution role credentials''"

text \<open>
  \<open>Create\<close> returns its error, the resource (only its terminal reason can change) and the
  file system as the call leaves them.
\<close>

definition Create ::
  "env \<Rightarrow> FirelensResource \<Rightarrow> filesystem
   \<Rightarrow> error option \<times> FirelensResource \<times> filesystem" where
  "Create env firelens fs =
     (if firelensConfigType firelens \<noteq> FirelensConfigTypeFluentd
         \<and> firelensConfigType firelens \<noteq> FirelensConfigTypeFluentbit
      then (let err = Errorf (''invalid firelens configuration type: ''
                        @ firelensConfigType firelens)
            in (Some err, setTerminalReason (error_string err) firelens, fs))
      else
        (case createDirectories env firelens fs of
           (Some err0, fs1) \<Rightarrow>
             (let err = Wrap err0 (''unable to initialize resource directory ''
                          @ resourceDir firelens)
              in (Some err, setTerminalReason (error_string err) firelens, fs1))
         | (None, fs1) \<Rightarrow>
             (case (if externalConfigType firelens = ExternalConfigTypeS3
                    then downloadConfigFromS3 env firelens fs1
                    else (None, fs1)) of
                (Some err0, fs2) \<Rightarrow>
                  (let err = Wrap err0 ''unable to download firelens s3 config file''
                   in (Some err, setTerminalReason (error_string err) firelens, fs2))
              | (None, fs2) \<Rightarrow>
                  (case generateConfigFile env firelens fs2 of
                     (Some err0, fs3) \<Rightarrow>
                       (let err = Wrap err0 ''unable to generate firelens config file''
                        in (Some err, setTerminalReason (error_string err) firelens, fs3))
                   | (None, fs3) \<Rightarrow> (None, firelens, fs3)))))"

subsection \<open>ApplyTransition\<close>

fun run_transition ::
  "env \<Rightarrow> transition \<Rightarrow> FirelensResource \<Rightarrow> filesystem
   \<Rightarrow> error option \<times> FirelensResource \<times> filesystem" where
  "run_transition env CreateFn firelens fs = Create env firelens fs"

definition ApplyTransition ::
  "env \<Rightarrow> ResourceStatus \<Rightarrow> FirelensResource \<Rightarrow> filesystem
   \<Rightarrow> error option \<times> FirelensResource \<times> filesystem" where
  "ApplyTransition env nextState firelens fs =
     (case statusToTransitions firelens nextState of
        None \<Rightarrow>
          (let err = Errorf (''resource ['' @ ResourceName @ '']: impossible to transition to ''
                       @ StatusString env nextState)
           in (Some err, setTerminalReason (error_string err) firelens, fs))
      | Some transitionFunc \<Rightarrow> run_transition env transitionFunc firelens fs)"

section \<open>The CNI client: cleanupNS\<close>

text \<open>
  The fields of \<open>Config\<close>, of its network entries and of \<open>libcni.RuntimeConf\<close> that
  \<open>cleanupNS\<close> reads or writes. The plugin configuration payload is kept as its network
  name and type.
\<close>

record CNINetworkConfig =
  Network_Name :: string
  Network_Type :: string

record NetworkConfig =
  IfName :: string
  CNINetworkConfig :: CNINetworkConfig

record Config =
  ContainerID :: string
  ContainerNetNS :: string
  NetworkConfigs :: "NetworkConfig list"

record RuntimeConf =
  rc_ContainerID :: string
  rc_NetNS :: string
  rc_IfName :: string

text \<open>
  One \<open>DelNetwork\<close> invocation is the pair of its arguments. The library (and the plugin
  binaries behind it) is a parameter: given the invocations made so far and the next
  one, it answers with an error or with success. The model returns the error of
  \<open>cleanupNS\<close> and the invocations it has made, in the order it made them.
\<close>

type_synonym del_call = "CNINetworkConfig \<times> RuntimeConf"

type_synonym libcni = "del_call list \<Rightarrow> del_call \<Rightarrow> error option"

function cleanupNS_loop ::
  "libcni \<Rightarrow> Config \<Rightarrow> RuntimeConf \<Rightarrow> int \<Rightarrow> del_call list \<Rightarrow> error option \<times> del_call list" where
  "cleanupNS_loop DelNetwork cfg runtimeConfig i issued =
     (if i \<ge> 0 then
        (let networkConfig = NetworkConfigs cfg ! nat i;
             cniNetworkConfig = CNINetworkConfig networkConfig;
             runtimeConfig1 = runtimeConfig\<lparr>rc_IfName := IfName networkConfig\<rparr>;
             err = DelNetwork issued (cniNetworkConfig, runtimeConfig1)
         in case err of
              Some e \<Rightarrow>
                (Some (Wrap e ''delete network failed''),
                 issued @ [(cniNetworkConfig, runtimeConfig1)])
            | None \<Rightarrow>
                cleanupNS_loop DelNetwork cfg runtimeConfig1 (i - 1)
                  (issued @ [(cniNetworkConfig, runtimeConfig1)]))
      else (None, issued))"
  by pat_completeness auto
termination
  by (relation "measure (\<lambda>(DelNetwork, cfg, runtimeConfig, i, issued). nat (i + 1))") auto

declare cleanupNS_loop.simps [simp del]

definition cleanupNS :: "libcni \<Rightarrow> Config \<Rightarrow> error option \<times> del_call list" where
  "cleanupNS DelNetwork cfg =
     (let runtimeConfig =
            \<lparr>rc_ContainerID = ContainerID cfg, rc_NetNS = ContainerNetNS cfg, rc_IfName = []\<rparr>
      in cleanupNS_loop DelNetwork cfg runtimeConfig (int (length (NetworkConfigs cfg)) - 1) [])"

subsection \<open>The teardown order in the spec's words\<close>

text \<open>
  The invocation \<open>cleanupNS\<close> makes for one network entry: the entry's plugin
  configuration with the container id, the namespace path and the entry's interface
  name.
\<close>

definition del_call_of :: "Config \<Rightarrow> NetworkConfig \<Rightarrow> del_call" where
  "del_call_of cfg networkConfig =
     (CNINetworkConfig networkConfig,
      \<lparr>rc_ContainerID = ContainerID cfg, rc_NetNS = ContainerNetNS cfg,
       rc_IfName = IfName networkConfig\<rparr>)"

text \<open>The invocations for all entries, last configured entry first.\<close>

definition reverse_order_calls :: "Config \<Rightarrow> del_call list" where
  "reverse_order_calls cfg = map (del_call_of cfg) (rev (NetworkConfigs cfg))"

text \<open>
  Invoking DEL for a list of invocations in list order, stopping at the first failure:
  the reference \<open>cleanupNS_loop\<close> is compared with.
\<close>

fun del_each :: "libcni \<Rightarrow> del_call list \<Rightarrow> del_call list \<Rightarrow> error option \<times> del_call list" where
  "del_each DelNetwork [] issued = (None, issued)"
| "del_each DelNetwork (c # cs) issued =
     (case DelNetwork issued c of
        Some e \<Rightarrow> (Some (Wrap e ''delete network failed''), issued @ [c])
      | None \<Rightarrow> del_each DelNetwork cs (issued @ [c]))"

section \<open>Sequences of tracker operations\<close>

text \<open>
  The owning task engine drives a resource through its exported operations. One
  operation is a value of \<open>tracker_op\<close>; \<open>tracker_step\<close> runs it on the resource and the
  file system (return values are dropped), and \<open>run_tracker\<close> runs a sequence in order.
\<close>

datatype tracker_op =
    OpSetKnownStatus ResourceStatus
  | OpSetDesiredStatus ResourceStatus
  | OpSetAppliedStatus ResourceStatus
  | OpApplyTransition ResourceStatus

fun tracker_step ::
  "env \<Rightarrow> tracker_op \<Rightarrow> FirelensResource \<times> filesystem \<Rightarrow> FirelensResource \<times> filesystem" where
  "tracker_step env (OpSetKnownStatus s) (firelens, fs) = (SetKnownStatus s firelens, fs)"
| "tracker_step env (OpSetDesiredStatus s) (firelens, fs) = (SetDesiredStatus s firelens, fs)"
| "tracker_step env (OpSetAppliedStatus s) (firelens, fs) =
     (snd (SetAppliedStatus s firelens), fs)"
| "tracker_step env (OpApplyTransition s) (firelens, fs) =
     snd (ApplyTransition env s firelens fs)"

definition run_tracker ::
  "env \<Rightarrow> tracker_op list \<Rightarrow> FirelensResource \<times> filesystem \<Rightarrow> FirelensResource \<times> filesystem" where
  "run_tracker env ops w = fold (tracker_step env) ops w"

text \<open>The arguments of the \<open>SetKnownStatus\<close> calls of a sequence, in order.\<close>

fun known_args :: "tracker_op list \<Rightarrow> ResourceStatus list" where
  "known_args [] = []"
| "known_args (OpSetKnownStatus s # ops) = s # known_args ops"
| "known_args (_ # ops) = known_args ops"

section \<open>Concrete inputs\<close>

text \<open>
  The resource \<open>NewFirelensResource\<close> builds for task \<open>t1\<close> under the data directory
  \<open>/data\<close> when no option is recognised, before \<open>initStatusToTransition\<close>: every field
  the struct literal does not name has its zero value.
\<close>

definition demo_resource :: FirelensResource where
  "demo_resource =
     \<lparr> cluster = ''default'', taskARN = ''arn:aws:ecs:us-west-2:1234:task/t1'',
       taskDefinition = ''td:1'', ec2InstanceID = ''i-0abc'',
       resourceDir = ''/data/firelens/t1'',
       firelensConfigType = ''fluentbit'', region = ''us-west-2'',
       ecsMetadataEnabled = False, containerToLogOptions = Map.empty,
       executionCredentialsID = ''exec-id'',
       externalConfigType = [], externalConfigValue = [],
       networkMode = ''bridge'', createdAtUnsafe = 0,
       desiredStatusUnsafe = 0, knownStatusUnsafe = 0, appliedStatusUnsafe = 0,
       statusToTransitions = Map.empty, terminalReason = [],
       terminalReasonOnce = False \<rparr>"

text \<open>
  A collaborator set in which every system call succeeds, \<open>ioutil.TempFile\<close> draws the
  suffix \<open>042\<close>, no task credentials are registered, and the config generator and the
  two config writers produce a fixed text.
\<close>

definition demo_env :: env where
  "demo_env =
     \<lparr> os_fail = (\<lambda>fs op. None),
       mkdir_progress = (\<lambda>fs path. 0),
       temp_suffix = (\<lambda>fs. ''042''),
       GetTaskCredentials = Map.empty,
       ParseS3ARN = (\<lambda>arn. Inr (''bucket'', ''key'')),
       NewS3ClientForBucket = (\<lambda>bucket region creds. Inr ''client''),
       DownloadFile = (\<lambda>bucket key client. (''[FILTER]'', None)),
       generateConfig = (\<lambda>firelens. Inr ''[SERVICE]''),
       WriteFluentdConfig = (\<lambda>config. (config, None)),
       WriteFluentBitConfig = (\<lambda>config. (config, None)),
       StatusString =
         (\<lambda>s. if s = 1 then ''CREATED'' else if s = 2 then ''REMOVED'' else ''NONE'') \<rparr>"

text \<open>The empty file system.\<close>

definition demo_fs :: filesystem where
  "demo_fs = \<lparr> files = Map.empty, dirs = {}, open_handles = {} \<rparr>"

text \<open>
  A task namespace with three configured networks, and a plugin set in which the DEL
  for interface \<open>eth1\<close> fails and every other DEL succeeds.
\<close>

definition demo_cfg :: Config where
  "demo_cfg =
     \<lparr> ContainerID = ''c1'', ContainerNetNS = ''/proc/42/ns/net'',
       NetworkConfigs =
         [\<lparr>IfName = ''eth0'', CNINetworkConfig = \<lparr>Network_Name = ''eni'', Network_Type = ''ecs-eni''\<rparr>\<rparr>,
          \<lparr>IfName = ''eth1'', CNINetworkConfig = \<lparr>Network_Name = ''bridge'', Network_Type = ''ecs-bridge''\<rparr>\<rparr>,
          \<lparr>IfName = ''eth2'', CNINetworkConfig = \<lparr>Network_Name = ''mesh'', Network_Type = ''aws-appmesh''\<rparr>\<rparr>] \<rparr>"

definition demo_libcni :: libcni where
  "demo_libcni issued c =
     (if rc_IfName (snd c) = ''eth1'' then Some (External ''plugin exited with status 1'') else None)"

text \<open>The same resource with external-config mode \<open>s3\<close> and a locator.\<close>

definition demo_s3_resource :: FirelensResource where
  "demo_s3_resource =
     demo_resource\<lparr>externalConfigType := ''s3'',
       externalConfigValue := ''arn:aws:s3:::bucket/key''\<rparr>"

text \<open>
  A file system in which the two directories exist and \<open>config/fluent.conf\<close> already has
  content, and a collaborator set in which every \<open>os.Rename\<close> fails.
\<close>

definition demo_fs_old :: filesystem where
  "demo_fs_old =
     \<lparr> files = [''/data/firelens/t1/config/fluent.conf'' \<mapsto>
                  \<lparr>f_content = ''[OLD]'', f_mode = 420, f_synced = True\<rparr>],
       dirs = {''/data/firelens/t1/config'', ''/data/firelens/t1/socket''},
       open_handles = {} \<rparr>"

definition demo_env_rename_fails :: env where
  "demo_env_rename_fails =
     demo_env\<lparr>os_fail := (\<lambda>fs op. case op of
        RenameOp oldpath newpath \<Rightarrow> Some (External ''rename: permission denied'')
      | _ \<Rightarrow> None)\<rparr>"

text \<open>A collaborator set in which every \<open>os.MkdirAll\<close> fails, having created nothing.\<close>

definition demo_env_mkdir_fails :: env where
  "demo_env_mkdir_fails =
     demo_env\<lparr>os_fail := (\<lambda>fs op. case op of
        MkdirAllOp path \<Rightarrow> Some (External ''mkdir: permission denied'')
      | _ \<Rightarrow> None)\<rparr>"

section \<open>Verified properties\<close>

subsection \<open>parseOptions\<close>

text \<open>
  The metadata flag after \<open>parseOptions\<close>, for every options map and every resource: true
  when the option is absent, the parsed value when it parses, and the value the resource
  had before the call when it does not parse.
\<close>

lemma parseOptions_metadata_flag:
  "ecsMetadataEnabled (snd (parseOptions options firelens)) =
     (case options ''enable-ecs-log-metadata'' of
        None \<Rightarrow> True
      | Some val \<Rightarrow> (case ParseBool val of
                      Some b \<Rightarrow> b
                    | None \<Rightarrow> ecsMetadataEnabled firelens))"
  by (simp add: parseOptions_def ecsLogMetadataEnableOption_def Let_def
      split: option.splits)

text \<open>
  Claim C1. The claim says the flag is true when \<open>enable-ecs-log-metadata\<close> is present and
  does not parse as a boolean. The code leaves the field as it was, and the only caller,
  \<open>NewFirelensResource\<close>, builds the resource with the field at Go's zero value: for the
  option value \<open>yes\<close> the call succeeds and the flag is false. The theorem evaluates
  \<open>parseOptions\<close> and \<open>NewFirelensResource\<close> at that input.
\<close>

theorem parseOptions_unparsable_flag_false:
  "parseOptions [''enable-ecs-log-metadata'' \<mapsto> ''yes''] demo_resource = (None, demo_resource)
   \<and> ecsMetadataEnabled demo_resource = False
   \<and> map_sum id ecsMetadataEnabled
        (NewFirelensResource ''default'' ''arn:aws:ecs:us-west-2:1234:task/t1'' ''td:1''
           ''i-0abc'' ''/data'' ''fluentbit'' ''us-west-2'' ''bridge''
           [''enable-ecs-log-metadata'' \<mapsto> ''yes''] Map.empty ''exec-id'') = Inr False"
  by (simp add: NewFirelensResource_def parseOptions_def ParseBool_def
      ecsLogMetadataEnableOption_def ExternalConfigTypeOption_def
      initStatusToTransition_def demo_resource_def filepath_Join_def)

text \<open>
  Claim C2. For every options map, \<open>parseOptions\<close> fails exactly when \<open>config-file-type\<close> is
  present and its value is neither \<open>s3\<close> nor \<open>file\<close>, or is present while
  \<open>config-file-value\<close> is absent. The two failures are the configuration errors built by
  \<open>errors.Errorf\<close>. Otherwise the call succeeds, and with the mode present it stores the
  mode and the locator; with the mode absent it leaves both fields alone. The function
  has no file system among its arguments or results, so it mutates none.
\<close>

theorem parseOptions_external_config:
  fixes options firelens
  defines "r \<equiv> parseOptions options firelens"
  shows
  "(fst r \<noteq> None) =
     (\<exists>t. options ''config-file-type'' = Some t
        \<and> ((t \<noteq> ''s3'' \<and> t \<noteq> ''file'') \<or> options ''config-file-value'' = None))
   \<and> (\<forall>t. options ''config-file-type'' = Some t \<and> t \<noteq> ''s3'' \<and> t \<noteq> ''file'' \<longrightarrow>
         fst r = Some (Errorf (''invalid value '' @ t
                   @ '' is specified for option config-file-type'')))
   \<and> (\<forall>t. options ''config-file-type'' = Some t \<and> (t = ''s3'' \<or> t = ''file'')
           \<and> options ''config-file-value'' = None \<longrightarrow>
         fst r = Some (Errorf
           ''option config-file-type is specified but config-file-value is not specified''))
   \<and> (\<forall>t v. fst r = None \<and> options ''config-file-type'' = Some t
           \<and> options ''config-file-value'' = Some v \<longrightarrow>
         externalConfigType (snd r) = t \<and> externalConfigValue (snd r) = v)
   \<and> (fst r = None \<and> options ''config-file-type'' = None \<longrightarrow>
         externalConfigType (snd r) = externalConfigType firelens
         \<and> externalConfigValue (snd r) = externalConfigValue firelens)"
  unfolding r_def
  by (auto simp: parseOptions_def ExternalConfigTypeOption_def ExternalConfigTypeS3_def
      ExternalConfigTypeFile_def externalConfigValueOption_def Let_def
      split: option.splits)

theorem parseOptions_external_config_witness:
  "fst (parseOptions [''config-file-type'' \<mapsto> ''s3''] demo_resource) =
     Some (Errorf ''option config-file-type is specified but config-file-value is not specified'')
   \<and> fst (parseOptions [''config-file-type'' \<mapsto> ''s3'',
             ''config-file-value'' \<mapsto> ''arn:aws:s3:::b/k''] demo_resource) = None
   \<and> externalConfigValue (snd (parseOptions [''config-file-type'' \<mapsto> ''s3'',
             ''config-file-value'' \<mapsto> ''arn:aws:s3:::b/k''] demo_resource)) = ''arn:aws:s3:::b/k''"
  using parseOptions_external_config [of "[''config-file-type'' \<mapsto> ''s3'']" demo_resource]
    parseOptions_external_config [of "[''config-file-type'' \<mapsto> ''s3'',
             ''config-file-value'' \<mapsto> ''arn:aws:s3:::b/k'']" demo_resource]
  by simp

subsection \<open>Status tracker\<close>

lemma setTerminalReason_done:
  "terminalReasonOnce firelens \<Longrightarrow> setTerminalReason m firelens = firelens"
  by (simp add: setTerminalReason_def)

lemma setTerminalReason_status [simp]:
  "knownStatusUnsafe (setTerminalReason m firelens) = knownStatusUnsafe firelens"
  "appliedStatusUnsafe (setTerminalReason m firelens) = appliedStatusUnsafe firelens"
  "desiredStatusUnsafe (setTerminalReason m firelens) = desiredStatusUnsafe firelens"
  by (simp_all add: setTerminalReason_def)

text \<open>
  \<open>Create\<close> changes nothing of the resource but the terminal reason, which it records
  (through the once-cell) exactly when it fails.
\<close>

lemma Create_shape:
  "\<exists>r fs'. Create env firelens fs =
     (r, (case r of None \<Rightarrow> firelens
          | Some err \<Rightarrow> setTerminalReason (error_string err) firelens), fs')"
  by (simp add: Create_def Let_def split: prod.split option.split)

lemma ApplyTransition_shape:
  "\<exists>r fs'. ApplyTransition env s firelens fs =
     (r, (case r of None \<Rightarrow> firelens
          | Some err \<Rightarrow> setTerminalReason (error_string err) firelens), fs')"
proof (cases "statusToTransitions firelens s")
  case None
  then show ?thesis by (simp add: ApplyTransition_def Let_def)
next
  case (Some tf)
  then show ?thesis
    using Create_shape [of env firelens fs]
    by (cases tf) (simp add: ApplyTransition_def)
qed

lemma tracker_step_terminal:
  assumes "terminalReasonOnce (fst w)"
  shows "terminalReasonOnce (fst (tracker_step env op w))
         \<and> terminalReason (fst (tracker_step env op w)) = terminalReason (fst w)"
proof (cases w)
  case (Pair firelens fs)
  with assms have once: "terminalReasonOnce firelens" by simp
  show ?thesis
  proof (cases op)
    case (OpApplyTransition s)
    from ApplyTransition_shape [of env s firelens fs] once
    have "fst (snd (ApplyTransition env s firelens fs)) = firelens"
      by (auto simp: setTerminalReason_done split: option.splits)
    with Pair OpApplyTransition once show ?thesis by simp
  qed (use Pair once in \<open>simp_all add: SetKnownStatus_def updateAppliedStatusUnsafe_def
        SetDesiredStatus_def SetAppliedStatus_def\<close>)
qed

lemma run_tracker_terminal:
  "terminalReasonOnce (fst w) \<Longrightarrow>
     terminalReasonOnce (fst (run_tracker env ops w))
     \<and> terminalReason (fst (run_tracker env ops w)) = terminalReason (fst w)"
  unfolding run_tracker_def
proof (induction ops arbitrary: w)
  case Nil
  then show ?case by simp
next
  case (Cons op ops)
  from tracker_step_terminal [OF Cons.prems, of env op]
  have s: "terminalReasonOnce (fst (tracker_step env op w))"
    and t: "terminalReason (fst (tracker_step env op w)) = terminalReason (fst w)"
    by simp_all
  from Cons.IH [OF s] t show ?case by simp
qed

lemma fold_setTerminalReason_done:
  "terminalReasonOnce firelens \<Longrightarrow> fold setTerminalReason rs firelens = firelens"
  by (induction rs) (simp_all add: setTerminalReason_done)

text \<open>
  Claim C7. On a resource whose once-cell has not fired, the first \<open>setTerminalReason r\<close>
  makes the terminal reason \<open>r\<close>; after it, any further calls of \<open>setTerminalReason\<close> with
  any reasons, and any sequence of tracker operations (failing transitions included),
  leave \<open>GetTerminalReason\<close> equal to \<open>r\<close>.
\<close>

theorem terminalReason_first_wins:
  assumes "\<not> terminalReasonOnce firelens"
  shows "GetTerminalReason (setTerminalReason r firelens) = r
     \<and> GetTerminalReason (fold setTerminalReason rs (setTerminalReason r firelens)) = r
     \<and> GetTerminalReason (fst (run_tracker env ops (setTerminalReason r firelens, fs))) = r"
proof -
  let ?f = "setTerminalReason r firelens"
  from assms have once: "terminalReasonOnce ?f" and first: "terminalReason ?f = r"
    by (simp_all add: setTerminalReason_def)
  from run_tracker_terminal [of "(?f, fs)" env ops] once first
  have "terminalReason (fst (run_tracker env ops (?f, fs))) = r" by simp
  with once first show ?thesis
    by (simp add: GetTerminalReason_def fold_setTerminalReason_done)
qed

theorem terminalReason_first_wins_witness:
  "\<not> terminalReasonOnce demo_resource
   \<and> GetTerminalReason (fold setTerminalReason [''second'', ''third'']
        (setTerminalReason ''first'' demo_resource)) = ''first''
   \<and> GetTerminalReason (fst (run_tracker demo_env
        [OpApplyTransition FirelensRemoved, OpSetKnownStatus FirelensCreated]
        (setTerminalReason ''first'' demo_resource, demo_fs))) = ''first''"
proof -
  have h: "\<not> terminalReasonOnce demo_resource" by (simp add: demo_resource_def)
  from terminalReason_first_wins [OF h, of "''first''" "[''second'', ''third'']" demo_env
      "[OpApplyTransition FirelensRemoved, OpSetKnownStatus FirelensCreated]" demo_fs] h
  show ?thesis by simp
qed

text \<open>
  Claim C4. For every resource and status \<open>s\<close>: if the applied status is None,
  \<open>SetAppliedStatus s\<close> returns true and sets the applied status to \<open>s\<close>, changing no other
  field; otherwise it returns false and leaves the whole resource as it was.
\<close>

theorem SetAppliedStatus_gate:
  "(appliedStatusUnsafe firelens = FirelensStatusNone \<longrightarrow>
      SetAppliedStatus s firelens = (True, firelens\<lparr>appliedStatusUnsafe := s\<rparr>))
   \<and> (appliedStatusUnsafe firelens \<noteq> FirelensStatusNone \<longrightarrow>
      SetAppliedStatus s firelens = (False, firelens))"
  by (simp add: SetAppliedStatus_def)

theorem SetAppliedStatus_gate_witness:
  "SetAppliedStatus FirelensCreated demo_resource
     = (True, demo_resource\<lparr>appliedStatusUnsafe := FirelensCreated\<rparr>)
   \<and> SetAppliedStatus FirelensRemoved (demo_resource\<lparr>appliedStatusUnsafe := FirelensCreated\<rparr>)
     = (False, demo_resource\<lparr>appliedStatusUnsafe := FirelensCreated\<rparr>)"
  using SetAppliedStatus_gate [of demo_resource FirelensCreated]
    SetAppliedStatus_gate [of "demo_resource\<lparr>appliedStatusUnsafe := FirelensCreated\<rparr>"
      FirelensRemoved]
  by (simp add: demo_resource_def FirelensStatusNone_def FirelensCreated_def)

text \<open>
  Claim C5. For every resource and status \<open>s\<close>, \<open>SetKnownStatus s\<close> sets the known status
  to \<open>s\<close>; the applied status becomes None when it was not None and was at most \<open>s\<close>, and
  keeps its value in every other case. No other field changes.
\<close>

theorem SetKnownStatus_reconciles:
  "SetKnownStatus s firelens =
     firelens\<lparr>knownStatusUnsafe := s,
       appliedStatusUnsafe :=
         (if appliedStatusUnsafe firelens \<noteq> FirelensStatusNone
             \<and> appliedStatusUnsafe firelens \<le> s
          then FirelensStatusNone else appliedStatusUnsafe firelens)\<rparr>"
  by (simp add: SetKnownStatus_def updateAppliedStatusUnsafe_def)

theorem SetKnownStatus_reconciles_witness:
  "SetKnownStatus FirelensCreated (demo_resource\<lparr>appliedStatusUnsafe := FirelensCreated\<rparr>)
     = demo_resource\<lparr>knownStatusUnsafe := FirelensCreated,
         appliedStatusUnsafe := FirelensStatusNone\<rparr>
   \<and> SetKnownStatus FirelensCreated (demo_resource\<lparr>appliedStatusUnsafe := FirelensRemoved\<rparr>)
     = demo_resource\<lparr>knownStatusUnsafe := FirelensCreated,
         appliedStatusUnsafe := FirelensRemoved\<rparr>"
  using SetKnownStatus_reconciles [of FirelensCreated
      "demo_resource\<lparr>appliedStatusUnsafe := FirelensCreated\<rparr>"]
    SetKnownStatus_reconciles [of FirelensCreated
      "demo_resource\<lparr>appliedStatusUnsafe := FirelensRemoved\<rparr>"]
  by (simp add: FirelensStatusNone_def FirelensCreated_def FirelensRemoved_def)

lemma tracker_step_known:
  "knownStatusUnsafe (fst (tracker_step env op (firelens, fs))) =
     (case op of OpSetKnownStatus s \<Rightarrow> s | _ \<Rightarrow> knownStatusUnsafe firelens)"
proof (cases op)
  case (OpApplyTransition s)
  from ApplyTransition_shape [of env s firelens fs]
  have "knownStatusUnsafe (fst (snd (ApplyTransition env s firelens fs))) = knownStatusUnsafe firelens"
    by (auto split: option.splits)
  with OpApplyTransition show ?thesis by simp
qed (simp_all add: SetKnownStatus_def updateAppliedStatusUnsafe_def
        SetDesiredStatus_def SetAppliedStatus_def)

lemma run_tracker_known:
  "knownStatusUnsafe (fst (run_tracker env ops w)) =
     last (knownStatusUnsafe (fst w) # known_args ops)"
  unfolding run_tracker_def
proof (induction ops arbitrary: w)
  case Nil
  then show ?case by simp
next
  case (Cons op ops)
  obtain firelens fs where w: "w = (firelens, fs)" by (cases w)
  from tracker_step_known [of env op firelens fs] w Cons.IH [of "tracker_step env op w"]
  show ?case by (cases op) simp_all
qed

text \<open>
  Claim C9, amended. \<open>SetDesiredStatus\<close>, \<open>SetAppliedStatus\<close> and \<open>ApplyTransition\<close> leave the
  known status as it is, and \<open>SetKnownStatus s\<close> sets it to \<open>s\<close> whatever it was. After a
  sequence of tracker operations the known status is therefore the argument of the last
  \<open>SetKnownStatus\<close> of the sequence (the initial value if there is none), and it has not
  decreased when the initial value followed by those arguments is in non-decreasing
  order, which is for the caller to ensure.
\<close>

theorem knownStatus_set_only_by_SetKnownStatus:
  "GetKnownStatus (SetDesiredStatus s firelens) = GetKnownStatus firelens
   \<and> GetKnownStatus (snd (SetAppliedStatus s firelens)) = GetKnownStatus firelens
   \<and> GetKnownStatus (fst (snd (ApplyTransition env s firelens fs))) = GetKnownStatus firelens
   \<and> GetKnownStatus (SetKnownStatus s firelens) = s
   \<and> GetKnownStatus (fst (run_tracker env ops (firelens, fs))) =
       last (GetKnownStatus firelens # known_args ops)
   \<and> (sorted (GetKnownStatus firelens # known_args ops) \<longrightarrow>
       GetKnownStatus firelens \<le> GetKnownStatus (fst (run_tracker env ops (firelens, fs))))"
proof -
  have a: "knownStatusUnsafe (fst (snd (ApplyTransition env s firelens fs))) = knownStatusUnsafe firelens"
    using tracker_step_known [of env "OpApplyTransition s" firelens fs] by simp
  have r: "knownStatusUnsafe (fst (run_tracker env ops (firelens, fs))) =
       last (knownStatusUnsafe firelens # known_args ops)"
    using run_tracker_known [of env ops "(firelens, fs)"] by simp
  have m: "sorted (knownStatusUnsafe firelens # known_args ops) \<Longrightarrow>
       knownStatusUnsafe firelens \<le> last (knownStatusUnsafe firelens # known_args ops)"
    by (cases "known_args ops = []") auto
  from a r m show ?thesis
    by (simp add: GetKnownStatus_def SetDesiredStatus_def SetAppliedStatus_def
        SetKnownStatus_def updateAppliedStatusUnsafe_def)
qed

theorem knownStatus_set_only_by_SetKnownStatus_witness:
  "GetKnownStatus (fst (run_tracker demo_env
      [OpSetAppliedStatus FirelensCreated, OpApplyTransition FirelensRemoved,
       OpSetKnownStatus FirelensCreated, OpSetDesiredStatus FirelensRemoved,
       OpSetKnownStatus FirelensRemoved] (demo_resource, demo_fs))) = FirelensRemoved
   \<and> GetKnownStatus demo_resource \<le> GetKnownStatus (fst (run_tracker demo_env
      [OpSetAppliedStatus FirelensCreated, OpApplyTransition FirelensRemoved,
       OpSetKnownStatus FirelensCreated, OpSetDesiredStatus FirelensRemoved,
       OpSetKnownStatus FirelensRemoved] (demo_resource, demo_fs)))"
  using knownStatus_set_only_by_SetKnownStatus [of FirelensCreated demo_resource demo_env demo_fs
      "[OpSetAppliedStatus FirelensCreated, OpApplyTransition FirelensRemoved,
       OpSetKnownStatus FirelensCreated, OpSetDesiredStatus FirelensRemoved,
       OpSetKnownStatus FirelensRemoved]"]
  by (simp add: GetKnownStatus_def demo_resource_def FirelensCreated_def FirelensRemoved_def)

text \<open>
  Claim C9, as stated, says no tracker operation lowers the known status. \<open>SetKnownStatus\<close>
  assigns its argument with no comparison against the current value: after
  \<open>SetKnownStatus Created\<close>, \<open>SetKnownStatus None\<close> moves the known status from Created
  down to None.
\<close>

theorem knownStatus_decreases_counterexample:
  "GetKnownStatus (SetKnownStatus FirelensStatusNone (SetKnownStatus FirelensCreated demo_resource))
     < GetKnownStatus (SetKnownStatus FirelensCreated demo_resource)"
  by (simp add: GetKnownStatus_def SetKnownStatus_def updateAppliedStatusUnsafe_def
      FirelensStatusNone_def FirelensCreated_def demo_resource_def)

text \<open>
  Claim C6. When the target status is not in the transition table, \<open>ApplyTransition\<close>
  returns the state-transition error \<open>resource [firelens]: impossible to transition to\<close>
  followed by the status name, passes its text to \<open>setTerminalReason\<close> (so it becomes the
  terminal reason exactly when none was recorded before), and leaves the known status,
  the applied status and the file system unchanged. When the target is in the table the
  result is that of the bound function. The table \<open>initStatusToTransition\<close> builds has
  \<open>Created\<close> bound to \<open>Create\<close> and nothing else.
\<close>

theorem ApplyTransition_dispatch:
  fixes env target firelens fs
  defines "err \<equiv> Errorf (''resource [firelens]: impossible to transition to ''
                     @ StatusString env target)"
  defines "r \<equiv> ApplyTransition env target firelens fs"
  shows
  "(statusToTransitions firelens target = None \<longrightarrow>
      fst r = Some err
      \<and> GetTerminalReason (fst (snd r)) =
          (if terminalReasonOnce firelens then terminalReason firelens else error_string err)
      \<and> fst (snd r) = setTerminalReason (error_string err) firelens
      \<and> knownStatusUnsafe (fst (snd r)) = knownStatusUnsafe firelens
      \<and> appliedStatusUnsafe (fst (snd r)) = appliedStatusUnsafe firelens
      \<and> snd (snd r) = fs)
   \<and> (\<forall>transitionFunc. statusToTransitions firelens target = Some transitionFunc \<longrightarrow>
        r = run_transition env transitionFunc firelens fs)
   \<and> (target \<noteq> FirelensCreated \<longrightarrow>
        statusToTransitions (initStatusToTransition firelens) target = None)
   \<and> ApplyTransition env FirelensCreated (initStatusToTransition firelens) fs
        = Create env (initStatusToTransition firelens) fs"
  unfolding r_def err_def
  by (simp add: ApplyTransition_def Let_def ResourceName_def initStatusToTransition_def
      GetTerminalReason_def setTerminalReason_def)

theorem ApplyTransition_dispatch_witness:
  "fst (ApplyTransition demo_env FirelensRemoved (initStatusToTransition demo_resource) demo_fs)
     = Some (Errorf ''resource [firelens]: impossible to transition to REMOVED'')
   \<and> GetTerminalReason (fst (snd (ApplyTransition demo_env FirelensRemoved
        (initStatusToTransition demo_resource) demo_fs)))
     = ''resource [firelens]: impossible to transition to REMOVED''
   \<and> knownStatusUnsafe (fst (snd (ApplyTransition demo_env FirelensRemoved
        (initStatusToTransition demo_resource) demo_fs))) = FirelensStatusNone"
proof -
  let ?f = "initStatusToTransition demo_resource"
  have h: "statusToTransitions ?f FirelensRemoved = None"
    by (simp add: initStatusToTransition_def FirelensCreated_def FirelensRemoved_def)
  have once: "\<not> terminalReasonOnce ?f"
    by (simp add: initStatusToTransition_def demo_resource_def)
  have str: "StatusString demo_env FirelensRemoved = ''REMOVED''"
    by (simp add: demo_env_def FirelensRemoved_def)
  have known: "knownStatusUnsafe ?f = FirelensStatusNone"
    by (simp add: initStatusToTransition_def demo_resource_def FirelensStatusNone_def)
  from ApplyTransition_dispatch [of ?f FirelensRemoved demo_env demo_fs] h once str known
  show ?thesis by (simp add: GetTerminalReason_def setTerminalReason_def)
qed

subsection \<open>cleanupNS\<close>

lemma runtimeConfig_IfName:
  "rc_ContainerID rc = ContainerID cfg \<Longrightarrow> rc_NetNS rc = ContainerNetNS cfg \<Longrightarrow>
   (CNINetworkConfig nc, rc\<lparr>rc_IfName := IfName nc\<rparr>) = del_call_of cfg nc"
  by (cases rc) (simp add: del_call_of_def)

lemma cleanupNS_loop_refines:
  "i < int (length (NetworkConfigs cfg)) \<Longrightarrow>
   rc_ContainerID rc = ContainerID cfg \<Longrightarrow> rc_NetNS rc = ContainerNetNS cfg \<Longrightarrow>
   cleanupNS_loop D cfg rc i issued =
     del_each D (map (del_call_of cfg) (rev (take (nat (i + 1)) (NetworkConfigs cfg)))) issued"
proof (induction D cfg rc i issued rule: cleanupNS_loop.induct)
  case (1 D cfg rc i issued)
  show ?case
  proof (cases "i \<ge> 0")
    case False
    then show ?thesis by (simp add: cleanupNS_loop.simps [of D cfg rc i issued])
  next
    case True
    let ?nc = "NetworkConfigs cfg ! nat i"
    let ?rc1 = "rc\<lparr>rc_IfName := IfName ?nc\<rparr>"
    have call: "(CNINetworkConfig ?nc, ?rc1) = del_call_of cfg ?nc"
      using "1.prems" by (simp add: runtimeConfig_IfName)
    from True "1.prems" have lt: "nat i < length (NetworkConfigs cfg)" by simp
    from True have n: "nat (i + 1) = Suc (nat i)" "nat (i - 1 + 1) = nat i" by simp_all
    have split: "map (del_call_of cfg) (rev (take (Suc (nat i)) (NetworkConfigs cfg))) =
        del_call_of cfg ?nc # map (del_call_of cfg) (rev (take (nat i) (NetworkConfigs cfg)))"
      using lt by (simp add: take_Suc_conv_app_nth)
    show ?thesis
    proof (cases "D issued (del_call_of cfg ?nc)")
      case (Some e)
      with True call show ?thesis
        by (simp add: cleanupNS_loop.simps [of D cfg rc i issued] split Let_def n)
    next
      case None
      have "cleanupNS_loop D cfg ?rc1 (i - 1) (issued @ [(CNINetworkConfig ?nc, ?rc1)]) =
          del_each D (map (del_call_of cfg) (rev (take (nat (i - 1 + 1)) (NetworkConfigs cfg))))
            (issued @ [(CNINetworkConfig ?nc, ?rc1)])"
        using True None call "1.prems"
        by (intro "1.IH" [OF True refl refl refl refl]) simp_all
      with True None call show ?thesis
        by (simp add: cleanupNS_loop.simps [of D cfg rc i issued] split Let_def n)
    qed
  qed
qed

lemma cleanupNS_refines: "cleanupNS D cfg = del_each D (reverse_order_calls cfg) []"
  unfolding cleanupNS_def Let_def reverse_order_calls_def
  by (subst cleanupNS_loop_refines) simp_all

lemma del_each_all_ok:
  "(\<And>k. k < length cs \<Longrightarrow> D (issued @ take k cs) (cs ! k) = None) \<Longrightarrow>
   del_each D cs issued = (None, issued @ cs)"
proof (induction cs arbitrary: issued)
  case Nil
  then show ?case by simp
next
  case (Cons c cs)
  from Cons.prems [of 0] have c: "D issued c = None" by simp
  have "del_each D cs (issued @ [c]) = (None, (issued @ [c]) @ cs)"
  proof (rule Cons.IH)
    fix k assume "k < length cs"
    with Cons.prems [of "Suc k"] show "D ((issued @ [c]) @ take k cs) (cs ! k) = None" by simp
  qed
  with c show ?case by simp
qed

lemma del_each_first_fail:
  "k < length cs \<Longrightarrow> (\<And>j. j < k \<Longrightarrow> D (issued @ take j cs) (cs ! j) = None) \<Longrightarrow>
   D (issued @ take k cs) (cs ! k) = Some e \<Longrightarrow>
   del_each D cs issued = (Some (Wrap e ''delete network failed''), issued @ take (Suc k) cs)"
proof (induction cs arbitrary: issued k)
  case Nil
  then show ?case by simp
next
  case (Cons c cs)
  show ?case
  proof (cases k)
    case 0
    with Cons.prems show ?thesis by simp
  next
    case (Suc k')
    from Cons.prems(2) [of 0] Suc have c: "D issued c = None" by simp
    have "del_each D cs (issued @ [c]) =
        (Some (Wrap e ''delete network failed''), (issued @ [c]) @ take (Suc k') cs)"
    proof (rule Cons.IH)
      from Cons.prems(1) Suc show "k' < length cs" by simp
      fix j assume "j < k'"
      with Cons.prems(2) [of "Suc j"] Suc
      show "D ((issued @ [c]) @ take j cs) (cs ! j) = None" by simp
    next
      from Cons.prems(3) Suc show "D ((issued @ [c]) @ take k' cs) (cs ! k') = Some e" by simp
    qed
    with c Suc show ?thesis by simp
  qed
qed

text \<open>
  Claim C3. Let \<open>calls\<close> be the DEL invocations for the \<open>N\<close> configured entries in reverse
  of the configured order (position \<open>k\<close> is entry \<open>N - 1 - k\<close>). If every DEL succeeds,
  \<open>cleanupNS\<close> returns success having issued exactly \<open>calls\<close>, in that order. If the DEL
  at position \<open>k\<close> is the first to fail, \<open>cleanupNS\<close> returns that failure (wrapped with
  the message \<open>delete network failed\<close>) having issued exactly the first \<open>k + 1\<close>
  invocations of \<open>calls\<close>: none for the entries configured earlier.
\<close>

theorem cleanupNS_reverse_order:
  fixes DelNetwork cfg
  defines "calls \<equiv> reverse_order_calls cfg"
  defines "N \<equiv> length (NetworkConfigs cfg)"
  shows
  "length calls = N
   \<and> (\<forall>k<N. calls ! k = del_call_of cfg (NetworkConfigs cfg ! (N - 1 - k)))
   \<and> ((\<forall>k<N. DelNetwork (take k calls) (calls ! k) = None) \<longrightarrow>
        cleanupNS DelNetwork cfg = (None, calls))
   \<and> (\<forall>k e. k < N \<and> (\<forall>j<k. DelNetwork (take j calls) (calls ! j) = None)
          \<and> DelNetwork (take k calls) (calls ! k) = Some e \<longrightarrow>
        cleanupNS DelNetwork cfg =
          (Some (Wrap e ''delete network failed''), take (Suc k) calls))"
proof -
  have len: "length calls = N" by (simp add: calls_def N_def reverse_order_calls_def)
  have nth: "\<forall>k<N. calls ! k = del_call_of cfg (NetworkConfigs cfg ! (N - 1 - k))"
    by (simp add: calls_def N_def reverse_order_calls_def rev_nth)
  have ok: "(\<forall>k<N. DelNetwork (take k calls) (calls ! k) = None) \<longrightarrow>
        cleanupNS DelNetwork cfg = (None, calls)"
    using del_each_all_ok [of calls DelNetwork "[]"] len
    by (simp add: cleanupNS_refines calls_def)
  have fail: "\<forall>k e. k < N \<and> (\<forall>j<k. DelNetwork (take j calls) (calls ! j) = None)
          \<and> DelNetwork (take k calls) (calls ! k) = Some e \<longrightarrow>
        cleanupNS DelNetwork cfg =
          (Some (Wrap e ''delete network failed''), take (Suc k) calls)"
  proof (intro allI impI)
    fix k e
    assume a: "k < N \<and> (\<forall>j<k. DelNetwork (take j calls) (calls ! j) = None)
          \<and> DelNetwork (take k calls) (calls ! k) = Some e"
    from a len have "del_each DelNetwork calls [] =
       (Some (Wrap e ''delete network failed''), [] @ take (Suc k) calls)"
      by (intro del_each_first_fail) simp_all
    then show "cleanupNS DelNetwork cfg =
          (Some (Wrap e ''delete network failed''), take (Suc k) calls)"
      by (simp add: cleanupNS_refines calls_def)
  qed
  from len nth ok fail show ?thesis by blast
qed


theorem cleanupNS_reverse_order_witness:
  "cleanupNS demo_libcni demo_cfg =
     (Some (Wrap (External ''plugin exited with status 1'') ''delete network failed''),
      [del_call_of demo_cfg (NetworkConfigs demo_cfg ! 2),
       del_call_of demo_cfg (NetworkConfigs demo_cfg ! 1)])
   \<and> cleanupNS (\<lambda>issued c. None) demo_cfg =
     (None,
      [del_call_of demo_cfg (NetworkConfigs demo_cfg ! 2),
       del_call_of demo_cfg (NetworkConfigs demo_cfg ! 1),
       del_call_of demo_cfg (NetworkConfigs demo_cfg ! 0)])"
proof -
  let ?calls = "reverse_order_calls demo_cfg"
  have calls: "?calls =
      [del_call_of demo_cfg (NetworkConfigs demo_cfg ! 2),
       del_call_of demo_cfg (NetworkConfigs demo_cfg ! 1),
       del_call_of demo_cfg (NetworkConfigs demo_cfg ! 0)]"
    by (simp add: reverse_order_calls_def demo_cfg_def)
  have n: "length (NetworkConfigs demo_cfg) = 3" by (simp add: demo_cfg_def)
  have first: "\<forall>j<1. demo_libcni (take j ?calls) (?calls ! j) = None"
    unfolding calls by (simp add: demo_libcni_def del_call_of_def demo_cfg_def)
  have second: "demo_libcni (take 1 ?calls) (?calls ! 1) =
      Some (External ''plugin exited with status 1'')"
    unfolding calls by (simp add: demo_libcni_def del_call_of_def demo_cfg_def)
  from cleanupNS_reverse_order [of demo_cfg demo_libcni] n first second
  have a: "cleanupNS demo_libcni demo_cfg =
     (Some (Wrap (External ''plugin exited with status 1'') ''delete network failed''),
      take (Suc 1) ?calls)"
    by (metis One_nat_def lessI numeral_3_eq_3 less_Suc_eq)
  have all_ok: "\<forall>k<3. (\<lambda>issued c. None) (take k ?calls) (?calls ! k) = (None :: error option)"
    by simp
  from cleanupNS_reverse_order [of demo_cfg "\<lambda>issued c. None"] n
  have b: "cleanupNS (\<lambda>issued c. None) demo_cfg = (None, ?calls)"
    by simp
  from a b show ?thesis by (simp add: calls)
qed

subsection \<open>writeConfigFile and Create\<close>

lemma TempFile_Inr:
  "TempFile env dir pattern fs = Inr (t, fs1) \<Longrightarrow>
     t = filepath_Join dir (pattern @ temp_suffix env fs) \<and> files fs t = None
     \<and> fs1 = fs\<lparr>files := (files fs)(t \<mapsto> \<lparr>f_content = [], f_mode = 6 * 64, f_synced = False\<rparr>),
                open_handles := insert t (open_handles fs)\<rparr>"
  by (auto simp: TempFile_def Let_def split: option.splits if_splits)

text \<open>
  Claim C8, amended. For every call of \<open>writeConfigFile\<close> whose destination is not the
  temporary file's own path: when a step fails, the destination holds what it held
  before the call; in every state the file system goes through during the call the
  destination holds either what it held before or the complete content (everything the
  content function wrote, mode 0644, flushed), and the latter only when the whole call
  succeeds; after a successful call the destination holds the complete content and the
  temporary path is gone. The deferred \<open>Close\<close> releases the handle on every exit path, so
  no handle is open after the call that was not open before. The temporary file itself
  is removed only by the successful rename: after a failure past acquisition it is
  still in the resource directory.
\<close>

theorem writeConfigFile_atomic:
  fixes env firelens writeFunc filePath fs
  defines "temp \<equiv> temp_path env firelens fs"
  defines "res \<equiv> writeConfigFile_trace env firelens writeFunc filePath fs"
  defines "complete \<equiv> \<lparr>f_content = fst writeFunc, f_mode = configFilePerm, f_synced = True\<rparr>"
  assumes ne: "filePath \<noteq> temp"
  shows
   "writeConfigFile env firelens writeFunc filePath fs = (fst res, last (snd res))
    \<and> (fst res \<noteq> None \<longrightarrow> files (last (snd res)) filePath = files fs filePath)
    \<and> (\<forall>s \<in> set (snd res). files s filePath = files fs filePath
          \<or> (fst res = None \<and> snd writeFunc = None \<and> files s filePath = Some complete))
    \<and> (fst res = None \<longrightarrow>
          files (last (snd res)) filePath = Some complete \<and> files (last (snd res)) temp = None)
    \<and> open_handles (last (snd res)) \<subseteq> open_handles fs
    \<and> (fst res \<noteq> None \<and> (\<exists>x. TempFile env (resourceDir firelens) tempFile fs = Inr x) \<longrightarrow>
          files fs temp = None \<and> files (last (snd res)) temp \<noteq> None)"
proof (cases "TempFile env (resourceDir firelens) tempFile fs")
  case (Inl err)
  then show ?thesis
    by (simp add: res_def writeConfigFile_def writeConfigFile_trace_def)
next
  case (Inr x)
  obtain t fs1 where x: "x = (t, fs1)" by (cases x)
  from TempFile_Inr [OF Inr [unfolded x]]
  have t: "t = temp" and fresh: "files fs temp = None"
    and fs1: "fs1 = fs\<lparr>files := (files fs)(temp \<mapsto> \<lparr>f_content = [], f_mode = 6 * 64, f_synced = False\<rparr>),
                open_handles := insert temp (open_handles fs)\<rparr>"
    by (auto simp: temp_def temp_path_def)
  show ?thesis
    using ne fresh
    unfolding res_def writeConfigFile_def writeConfigFile_trace_def Inr x t fs1 complete_def
    by (auto simp: Let_def file_Write_def file_Chmod_def file_Sync_def rename_def file_Close_def
        split: option.splits prod.splits)
qed

text \<open>The two destinations \<open>writeConfigFile\<close> is called with are never the temporary path.\<close>

lemma callers_destination_not_temp:
  "filepath_Join (filepath_Join (resourceDir firelens) ''config'') ''fluent.conf''
     \<noteq> temp_path env firelens fs"
  "filepath_Join (filepath_Join (resourceDir firelens) ''config'') ''external.conf''
     \<noteq> temp_path env firelens fs"
  by (simp_all add: filepath_Join_def temp_path_def tempFile_def)

theorem writeConfigFile_atomic_witness:
  "fst (writeConfigFile demo_env demo_resource (''[SERVICE]'', None)
          ''/data/firelens/t1/config/fluent.conf'' demo_fs_old) = None
   \<and> files (snd (writeConfigFile demo_env demo_resource (''[SERVICE]'', None)
          ''/data/firelens/t1/config/fluent.conf'' demo_fs_old))
        ''/data/firelens/t1/config/fluent.conf''
       = Some \<lparr>f_content = ''[SERVICE]'', f_mode = 420, f_synced = True\<rparr>
   \<and> files (snd (writeConfigFile demo_env demo_resource (''[SERVICE]'', None)
          ''/data/firelens/t1/config/fluent.conf'' demo_fs_old))
        ''/data/firelens/t1/temp_config_file042'' = None
   \<and> fst (writeConfigFile demo_env_rename_fails demo_resource (''[SERVICE]'', None)
          ''/data/firelens/t1/config/fluent.conf'' demo_fs_old)
       = Some (External ''rename: permission denied'')
   \<and> files (snd (writeConfigFile demo_env_rename_fails demo_resource (''[SERVICE]'', None)
          ''/data/firelens/t1/config/fluent.conf'' demo_fs_old))
        ''/data/firelens/t1/config/fluent.conf''
       = Some \<lparr>f_content = ''[OLD]'', f_mode = 420, f_synced = True\<rparr>"
proof -
  let ?dest = "''/data/firelens/t1/config/fluent.conf''"
  let ?w = "(''[SERVICE]'', None :: error option)"
  have tp: "temp_path demo_env demo_resource demo_fs_old = ''/data/firelens/t1/temp_config_file042''"
    "temp_path demo_env_rename_fails demo_resource demo_fs_old
       = ''/data/firelens/t1/temp_config_file042''"
    by (simp_all add: temp_path_def demo_env_rename_fails_def demo_env_def demo_resource_def
        filepath_Join_def tempFile_def)
  have ne: "?dest \<noteq> temp_path demo_env demo_resource demo_fs_old"
    "?dest \<noteq> temp_path demo_env_rename_fails demo_resource demo_fs_old"
    unfolding tp by simp_all
  have ok: "fst (writeConfigFile_trace demo_env demo_resource ?w ?dest demo_fs_old) = None"
    by (simp add: writeConfigFile_trace_def TempFile_def file_Write_def file_Chmod_def
        file_Sync_def rename_def file_Close_def Let_def demo_env_def demo_resource_def
        demo_fs_old_def filepath_Join_def tempFile_def)
  have bad: "fst (writeConfigFile_trace demo_env_rename_fails demo_resource ?w ?dest demo_fs_old)
      = Some (External ''rename: permission denied'')"
    by (simp add: writeConfigFile_trace_def TempFile_def file_Write_def file_Chmod_def
        file_Sync_def rename_def file_Close_def Let_def demo_env_rename_fails_def demo_env_def
        demo_resource_def demo_fs_old_def filepath_Join_def tempFile_def)
  have old: "files demo_fs_old ?dest = Some \<lparr>f_content = ''[OLD]'', f_mode = 420, f_synced = True\<rparr>"
    by (simp add: demo_fs_old_def)
  from writeConfigFile_atomic [OF ne(1), of ?w] writeConfigFile_atomic [OF ne(2), of ?w]
    ok bad tp old
  show ?thesis by (simp add: configFilePerm_def)
qed

text \<open>
  Claim C8, as stated, says the temporary file is cleaned up on every exit path. When
  the content function fails after writing \<open>[SERV\<close>, \<open>writeConfigFile\<close> returns that error
  and the temporary file, absent before the call, is left in the resource directory
  with the partial content: the deferred call closes the handle and removes nothing.
\<close>

theorem writeConfigFile_temp_left_counterexample:
  "fst (writeConfigFile demo_env demo_resource
          (''[SERV'', Some (External ''no space left on device''))
          ''/data/firelens/t1/config/fluent.conf'' demo_fs)
     = Some (External ''no space left on device'')
   \<and> files demo_fs ''/data/firelens/t1/temp_config_file042'' = None
   \<and> files (snd (writeConfigFile demo_env demo_resource
          (''[SERV'', Some (External ''no space left on device''))
          ''/data/firelens/t1/config/fluent.conf'' demo_fs))
        ''/data/firelens/t1/temp_config_file042''
     = Some \<lparr>f_content = ''[SERV'', f_mode = 384, f_synced = False\<rparr>"
  by (simp add: writeConfigFile_def writeConfigFile_trace_def TempFile_def file_Write_def
      file_Close_def Let_def demo_env_def demo_resource_def demo_fs_def filepath_Join_def
      tempFile_def)

lemma createDirectories_files:
  "files (snd (createDirectories env firelens fs)) = files fs"
  by (simp add: createDirectories_def mkdirAll_def Let_def split: option.splits)

text \<open>
  \<open>createDirectories\<close> in terms of the two \<open>os.MkdirAll\<close> answers of the environment.
\<close>

lemma createDirectories_run:
  fixes env firelens fs
  defines "configDir \<equiv> filepath_Join (resourceDir firelens) ''config''"
  defines "socketDir \<equiv> filepath_Join (resourceDir firelens) ''socket''"
  defines "fs1 \<equiv> fs\<lparr>dirs := insert configDir (set (ancestors configDir) \<union> dirs fs)\<rparr>"
  shows
   "createDirectories env firelens fs =
      (case os_fail env fs (MkdirAllOp configDir) of
         Some e \<Rightarrow>
           (Some (Wrap e ''unable to create config directory''),
            fs\<lparr>dirs := set (take (mkdir_progress env fs configDir) (ancestors configDir))
                         \<union> dirs fs\<rparr>)
       | None \<Rightarrow>
           (case os_fail env fs1 (MkdirAllOp socketDir) of
              Some e \<Rightarrow>
                (Some (Wrap e ''unable to create socket directory''),
                 fs1\<lparr>dirs := set (take (mkdir_progress env fs1 socketDir) (ancestors socketDir))
                               \<union> dirs fs1\<rparr>)
            | None \<Rightarrow>
                (None, fs1\<lparr>dirs := insert socketDir (set (ancestors socketDir) \<union> dirs fs1)\<rparr>)))"
  by (simp add: createDirectories_def mkdirAll_def Let_def configDir_def socketDir_def fs1_def
      split: option.splits)

text \<open>
  Claim C10, amended. For every resource with a valid config variant and external-config
  mode \<open>s3\<close>, and every credentials manager that has no credentials for the resource's
  execution-credentials id, \<open>Create\<close> fails and creates or writes no file, so
  \<open>config/fluent.conf\<close> is not written. When both \<open>os.MkdirAll\<close> calls succeed, the failure
  is the credential error wrapped by the download stage, it is recorded through the
  once-cell as the terminal reason, and the \<open>config\<close> and \<open>socket\<close> directories (with
  their ancestors) exist in the file system \<open>Create\<close> leaves. When the first or the
  second \<open>os.MkdirAll\<close> fails, \<open>Create\<close> returns that directory error, wrapped, before the
  download stage is reached; what the failing call had created stays.
\<close>

theorem Create_s3_without_credentials:
  fixes env firelens fs
  defines "r \<equiv> Create env firelens fs"
  defines "configDir \<equiv> filepath_Join (resourceDir firelens) ''config''"
  defines "socketDir \<equiv> filepath_Join (resourceDir firelens) ''socket''"
  defines "fs1 \<equiv> fs\<lparr>dirs := insert configDir (set (ancestors configDir) \<union> dirs fs)\<rparr>"
  assumes valid: "firelensConfigType firelens = FirelensConfigTypeFluentd
                  \<or> firelensConfigType firelens = FirelensConfigTypeFluentbit"
    and s3: "externalConfigType firelens = ExternalConfigTypeS3"
    and nocreds: "GetTaskCredentials env (executionCredentialsID firelens) = None"
  shows
   "fst r \<noteq> None
    \<and> files (snd (snd r)) = files fs
    \<and> (os_fail env fs (MkdirAllOp configDir) = None
        \<and> os_fail env fs1 (MkdirAllOp socketDir) = None \<longrightarrow>
         fst r = Some (Wrap CredentialError ''unable to download firelens s3 config file'')
         \<and> Cause (Wrap CredentialError ''unable to download firelens s3 config file'')
             = CredentialError
         \<and> fst (snd r) = setTerminalReason
             ''unable to download firelens s3 config file: unable to get execution role credentials''
             firelens
         \<and> configDir \<in> dirs (snd (snd r)) \<and> socketDir \<in> dirs (snd (snd r))
         \<and> dirs (snd (snd r)) =
             insert socketDir (set (ancestors socketDir)
               \<union> insert configDir (set (ancestors configDir) \<union> dirs fs))
         \<and> files (snd (snd r)) (filepath_Join configDir ''fluent.conf'')
             = files fs (filepath_Join configDir ''fluent.conf''))
    \<and> (\<forall>e. os_fail env fs (MkdirAllOp configDir) = Some e \<longrightarrow>
         fst r = Some (Wrap (Wrap e ''unable to create config directory'')
                   (''unable to initialize resource directory '' @ resourceDir firelens))
         \<and> dirs (snd (snd r)) =
             set (take (mkdir_progress env fs configDir) (ancestors configDir)) \<union> dirs fs)
    \<and> (\<forall>e. os_fail env fs (MkdirAllOp configDir) = None
            \<and> os_fail env fs1 (MkdirAllOp socketDir) = Some e \<longrightarrow>
         fst r = Some (Wrap (Wrap e ''unable to create socket directory'')
                   (''unable to initialize resource directory '' @ resourceDir firelens))
         \<and> configDir \<in> dirs (snd (snd r)))"
proof -
  note run = createDirectories_run [of env firelens fs,
      folded configDir_def socketDir_def, folded fs1_def]
  have dl: "\<And>fs'. downloadConfigFromS3 env firelens fs' = (Some CredentialError, fs')"
    using nocreds by (simp add: downloadConfigFromS3_def CredentialError_def)
  show ?thesis
  proof (cases "os_fail env fs (MkdirAllOp configDir)")
    case (Some e)
    with valid run show ?thesis
      by (auto simp: r_def Create_def Let_def)
  next
    case None
    show ?thesis
    proof (cases "os_fail env fs1 (MkdirAllOp socketDir)")
      case (Some e)
      with None valid run show ?thesis
        by (auto simp: r_def Create_def Let_def fs1_def)
    next
      case n2: None
      from None n2 run
      have cd: "createDirectories env firelens fs =
          (None, fs1\<lparr>dirs := insert socketDir (set (ancestors socketDir) \<union> dirs fs1)\<rparr>)"
        by simp
      from valid s3 cd dl
      have "r = (Some (Wrap CredentialError ''unable to download firelens s3 config file''),
               setTerminalReason (error_string
                  (Wrap CredentialError ''unable to download firelens s3 config file'')) firelens,
               fs1\<lparr>dirs := insert socketDir (set (ancestors socketDir) \<union> dirs fs1)\<rparr>)"
        by (auto simp: r_def Create_def Let_def)
      with None n2 show ?thesis
        by (simp add: fs1_def CredentialError_def)
    qed
  qed
qed

theorem Create_s3_without_credentials_witness:
  "fst (Create demo_env demo_s3_resource demo_fs)
     = Some (Wrap CredentialError ''unable to download firelens s3 config file'')
   \<and> dirs (snd (snd (Create demo_env demo_s3_resource demo_fs)))
     = {''/data/firelens/t1/socket'', ''/data/firelens/t1/config'',
        ''/data/firelens/t1'', ''/data/firelens'', ''/data''}
   \<and> files (snd (snd (Create demo_env demo_s3_resource demo_fs)))
        ''/data/firelens/t1/config/fluent.conf'' = None
   \<and> fst (Create demo_env_mkdir_fails demo_s3_resource demo_fs)
     = Some (Wrap (Wrap (External ''mkdir: permission denied'')
                ''unable to create config directory'')
           ''unable to initialize resource directory /data/firelens/t1'')"
proof -
  have valid: "firelensConfigType demo_s3_resource = FirelensConfigTypeFluentd
                  \<or> firelensConfigType demo_s3_resource = FirelensConfigTypeFluentbit"
    by (simp add: demo_s3_resource_def demo_resource_def FirelensConfigTypeFluentbit_def)
  have s3: "externalConfigType demo_s3_resource = ExternalConfigTypeS3"
    by (simp add: demo_s3_resource_def ExternalConfigTypeS3_def)
  have nocreds: "GetTaskCredentials demo_env (executionCredentialsID demo_s3_resource) = None"
    "GetTaskCredentials demo_env_mkdir_fails (executionCredentialsID demo_s3_resource) = None"
    by (simp_all add: demo_env_def demo_env_mkdir_fails_def)
  have mk: "\<And>fs' op. os_fail demo_env fs' op = None"
    by (simp add: demo_env_def)
  have mkf: "\<And>fs' path. os_fail demo_env_mkdir_fails fs' (MkdirAllOp path)
      = Some (External ''mkdir: permission denied'')"
    by (simp add: demo_env_mkdir_fails_def)
  have rd: "resourceDir demo_s3_resource = ''/data/firelens/t1''"
    by (simp add: demo_s3_resource_def demo_resource_def)
  have anc: "ancestors ''/data/firelens/t1/config''
               = [''/data'', ''/data/firelens'', ''/data/firelens/t1'']"
    "ancestors ''/data/firelens/t1/socket''
               = [''/data'', ''/data/firelens'', ''/data/firelens/t1'']"
    by (simp_all add: ancestors_def)
  have fs0: "dirs demo_fs = {}" "files demo_fs = Map.empty" by (simp_all add: demo_fs_def)
  from Create_s3_without_credentials [OF valid s3 nocreds(1), of demo_fs]
    Create_s3_without_credentials [OF valid s3 nocreds(2), of demo_fs] mk mkf
  show ?thesis by (simp add: rd fs0 filepath_Join_def anc insert_commute)
qed

text \<open>
  Claim C10, as stated, promises the credential error and both directories for every
  resource with a valid variant, mode \<open>s3\<close> and unresolvable credentials. When
  \<open>os.MkdirAll\<close> fails for the \<open>config\<close> directory, \<open>Create\<close> returns the directory error
  before it looks the credentials up: the cause is not the credential error, and neither
  directory exists.
\<close>

theorem Create_mkdir_failure_counterexample:
  "firelensConfigType demo_s3_resource = FirelensConfigTypeFluentbit
   \<and> externalConfigType demo_s3_resource = ExternalConfigTypeS3
   \<and> GetTaskCredentials demo_env_mkdir_fails (executionCredentialsID demo_s3_resource) = None
   \<and> fst (Create demo_env_mkdir_fails demo_s3_resource demo_fs)
     = Some (Wrap (Wrap (External ''mkdir: permission denied'')
                ''unable to create config directory'')
           ''unable to initialize resource directory /data/firelens/t1'')
   \<and> Cause (Wrap (Wrap (External ''mkdir: permission denied'')
                ''unable to create config directory'')
           ''unable to initialize resource directory /data/firelens/t1'') \<noteq> CredentialError
   \<and> ''/data/firelens/t1/config'' \<notin> dirs (snd (snd (Create demo_env_mkdir_fails
          demo_s3_resource demo_fs)))
   \<and> ''/data/firelens/t1/socket'' \<notin> dirs (snd (snd (Create demo_env_mkdir_fails
          demo_s3_resource demo_fs)))"
  by (simp add: Create_def createDirectories_def mkdirAll_def Let_def demo_env_mkdir_fails_def
      demo_env_def demo_s3_resource_def demo_resource_def demo_fs_def filepath_Join_def
      FirelensConfigTypeFluentbit_def FirelensConfigTypeFluentd_def ExternalConfigTypeS3_def
      CredentialError_def setTerminalReason_def)

end
